theory Spec2Isabelle
  imports Main "HOL-Library.Sublist"
begin

text \<open>
  The observability backend of the health checker's server: the host registry
  (\<^verbatim>\<open>config.js\<close>), the health aggregation with its result cache
  (\<^verbatim>\<open>healthManager.js\<close>), the host routes of \<^verbatim>\<open>server.js\<close> and the log
  retrieval (\<^verbatim>\<open>logManager.js\<close>), as functions of HOL. What the JavaScript reads from
  outside (subprocesses, HTTP answers, the clock, the file system) is an argument; what
  it mutates (the host table, the cache) is passed in and returned.
\<close>

section \<open>Rendering of numbers in template literals\<close>

text \<open>
  The JavaScript sources build strings with template literals such as
  \<^verbatim>\<open>`${host.host}:${host.port}`\<close>. A number is rendered in decimal.
\<close>

definition digit_char :: "nat \<Rightarrow> char" where
  "digit_char d = ''0123456789'' ! d"

fun show_nat :: "nat \<Rightarrow> string" where
  "show_nat n = (if n < 10 then [digit_char n] else show_nat (n div 10) @ [digit_char (n mod 10)])"

declare show_nat.simps [simp del]

definition show_int :: "int \<Rightarrow> string" where
  "show_int i = (if i < 0 then CHR ''-'' # show_nat (nat (- i)) else show_nat (nat i))"

section \<open>The host registry (server/config.js)\<close>

text \<open>
  A host object as \<^verbatim>\<open>loadHosts\<close>, \<^verbatim>\<open>loadHostsFromCSV\<close>,
  \<^verbatim>\<open>loadDefaultHosts\<close> and \<^verbatim>\<open>addHost\<close> build it. The fields
  \<^verbatim>\<open>id, name, host, port, type, enabled, description\<close> carry the prefix
  \<open>h\<close> here, since \<open>id\<close> is a constant of HOL.
\<close>

record host =
  hid :: string
  hname :: string
  hhost :: string
  hport :: nat
  htype :: string
  henabled :: bool
  hdescription :: string

text \<open>The process-wide settings \<^verbatim>\<open>loadConfig\<close> reads from the environment.\<close>

record settings =
  healthCheckerPath_cfg :: string
  apiUsername :: "string option"
  apiPassword :: "string option"
  apiToken :: "string option"

text \<open>The \<^verbatim>\<open>ConfigManager\<close> object: its host table and its settings.\<close>

record config_manager =
  hosts :: "host list"
  config :: settings

definition getEnabledHosts :: "config_manager \<Rightarrow> host list" where
  "getEnabledHosts c = filter henabled (hosts c)"

definition getHostById :: "config_manager \<Rightarrow> string \<Rightarrow> host option" where
  "getHostById c i = find (\<lambda>h. hid h = i) (hosts c)"

definition getAllHosts :: "config_manager \<Rightarrow> host list" where
  "getAllHosts c = hosts c"

section \<open>Health reports (server/healthManager.js, src/types/health.ts)\<close>

text \<open>
  \<^verbatim>\<open>HealthCheckResult\<close>: one probe result. The status is the string the JSON
  carries; the code compares it with \<^verbatim>\<open>'Unhealthy'\<close> and \<^verbatim>\<open>'Degraded'\<close> only.
\<close>

record check =
  service_name :: string
  status :: string
  response_time_ms :: nat
  details :: string
  timestamp :: string
  error_message :: "string option"

text \<open>A check after \<^verbatim>\<open>combineHealthResults\<close> has spread it and added the host's identity.\<close>

record combined_check = check +
  host_id :: string
  host_name :: string
  host_type :: string

text \<open>
  \<^verbatim>\<open>HealthReport\<close>, with the checks of type \<open>'c\<close>. In a report read from a probe a
  missing count is \<open>0\<close> and a missing \<^verbatim>\<open>checks\<close> is \<open>[]\<close>: the code reads them
  as \<^verbatim>\<open>data.healthy_count || 0\<close> and under \<^verbatim>\<open>if (data.checks)\<close>, which make
  the missing field and the empty one behave alike.
\<close>

record 'c report =
  timestamp_r :: string
  overall_status :: string
  total_checks :: nat
  healthy_count :: nat
  unhealthy_count :: nat
  degraded_count :: nat
  unknown_count :: nat
  checks :: "'c list"
  summary :: string

type_synonym host_report = "check report"

text \<open>
  What a probe delivers as \<^verbatim>\<open>data\<close>: the code resolves with whatever
  \<^verbatim>\<open>JSON.parse\<close> or \<^verbatim>\<open>response.data\<close> gives. \<open>Null\<close> is \<^verbatim>\<open>null\<close>, on
  which reading a property throws a TypeError; \<open>Object\<close> is an object, read field by
  field as a report.
\<close>

datatype json = Null | Object host_report

text \<open>An element of \<^verbatim>\<open>hosts\<close> in the combined report (\<^verbatim>\<open>HostInfo\<close>).\<close>

record host_info =
  info_id :: string
  info_name :: string
  info_host :: string
  info_port :: nat
  info_type :: string
  info_status :: string

record unified_report = "combined_check report" +
  hosts_r :: "host_info list"

text \<open>
  An element of the array \<^verbatim>\<open>Promise.allSettled\<close> returns: fulfilled with the value
  \<^verbatim>\<open>{host, data}\<close>, or rejected with an error whose \<^verbatim>\<open>message\<close> is kept.
\<close>

datatype settled = Fulfilled host json | Rejected string

datatype js_error = TypeError

subsection \<open>combineHealthResults\<close>

text \<open>The local variables of \<^verbatim>\<open>combineHealthResults\<close> that the loop updates.\<close>

record totals =
  combinedChecks :: "combined_check list"
  totalHealthy :: nat
  totalUnhealthy :: nat
  totalDegraded :: nat
  totalUnknown :: nat
  overallStatus :: string

definition tag_check :: "host \<Rightarrow> check \<Rightarrow> combined_check" where
  "tag_check h c =
     \<lparr> service_name = hname h @ '': '' @ service_name c,
       status = status c,
       response_time_ms = response_time_ms c,
       details = details c,
       timestamp = timestamp c,
       error_message = error_message c,
       host_id = hid h,
       host_name = hname h,
       host_type = htype h \<rparr>"

text \<open>The entry pushed for a rejected result; \<open>now\<close> is \<^verbatim>\<open>new Date().toISOString()\<close>.\<close>

definition connection_failed :: "string \<Rightarrow> host \<Rightarrow> string \<Rightarrow> combined_check" where
  "connection_failed now h reason =
     \<lparr> service_name = hname h @ '': Connection'',
       status = ''Unhealthy'',
       response_time_ms = 0,
       details = ''Failed to connect to '' @ hhost h @ '':'' @ show_nat (hport h),
       timestamp = now,
       error_message = Some (if reason = [] then ''Connection failed'' else reason),
       host_id = hid h,
       host_name = hname h,
       host_type = htype h \<rparr>"

text \<open>\<^verbatim>\<open>hosts[index]\<close>: \<^verbatim>\<open>undefined\<close> beyond the end of the array.\<close>

definition host_at :: "host list \<Rightarrow> nat \<Rightarrow> host option" where
  "host_at hs index = (if index < length hs then Some (hs ! index) else None)"

text \<open>
  The body of \<^verbatim>\<open>results.forEach((result, index) => ...)\<close>. Reading
  \<^verbatim>\<open>data.checks\<close> of a null \<^verbatim>\<open>data\<close> throws a TypeError. So does reading a
  property of an undefined \<^verbatim>\<open>host\<close>: in the fulfilled branch inside the loop over
  \<^verbatim>\<open>data.checks\<close>, so only when there is a check, in the rejected branch always.
\<close>

definition absorb :: "string \<Rightarrow> host option \<Rightarrow> settled \<Rightarrow> totals \<Rightarrow> js_error + totals" where
  "absorb now h result t =
     (case result of
        Fulfilled vh Null \<Rightarrow> Inl TypeError
      | Fulfilled vh (Object data) \<Rightarrow>
          (case (if checks data = [] then Inr []
                 else (case h of None \<Rightarrow> Inl TypeError
                               | Some h' \<Rightarrow> Inr (map (tag_check h') (checks data)))) of
             Inl e \<Rightarrow> Inl e
           | Inr tagged \<Rightarrow>
               Inr (t\<lparr> combinedChecks := combinedChecks t @ tagged,
                       totalHealthy := totalHealthy t + healthy_count data,
                       totalUnhealthy := totalUnhealthy t + unhealthy_count data,
                       totalDegraded := totalDegraded t + degraded_count data,
                       totalUnknown := totalUnknown t + unknown_count data,
                       overallStatus :=
                         (if overall_status data = ''Unhealthy'' then ''Unhealthy''
                          else if overall_status data = ''Degraded'' \<and> overallStatus t \<noteq> ''Unhealthy''
                               then ''Degraded''
                          else overallStatus t) \<rparr>))
      | Rejected reason \<Rightarrow>
          (case h of
             None \<Rightarrow> Inl TypeError
           | Some h' \<Rightarrow>
               Inr (t\<lparr> combinedChecks := combinedChecks t @ [connection_failed now h' reason],
                       totalUnhealthy := totalUnhealthy t + 1,
                       overallStatus := ''Unhealthy'' \<rparr>)))"

fun forEach_result :: "string \<Rightarrow> host list \<Rightarrow> nat \<Rightarrow> settled list \<Rightarrow> totals \<Rightarrow> js_error + totals" where
  "forEach_result now hs index [] t = Inr t"
| "forEach_result now hs index (result # rest) t =
     (case absorb now (host_at hs index) result t of
        Inl e \<Rightarrow> Inl e
      | Inr t' \<Rightarrow> forEach_result now hs (Suc index) rest t')"

text \<open>
  \<^verbatim>\<open>results.find((_, i) => hosts[i].id === host.id)?.status === 'fulfilled'\<close> for a
  \<^verbatim>\<open>host\<close> of \<^verbatim>\<open>hosts\<close>: the search walks the results and the hosts together
  and stops at the first host with the same id, which is at or before the host itself, so
  it never reads \<^verbatim>\<open>hosts[i]\<close> beyond the end.
\<close>

definition host_status :: "host list \<Rightarrow> settled list \<Rightarrow> host \<Rightarrow> string" where
  "host_status hs results h =
     (case find (\<lambda>(h', r). hid h' = hid h) (zip hs results) of
        Some (h', Fulfilled vh data) \<Rightarrow> ''online''
      | _ \<Rightarrow> ''offline'')"

definition host_info_of :: "host list \<Rightarrow> settled list \<Rightarrow> host \<Rightarrow> host_info" where
  "host_info_of hs results h =
     \<lparr> info_id = hid h, info_name = hname h, info_host = hhost h, info_port = hport h,
       info_type = htype h, info_status = host_status hs results h \<rparr>"

definition summary_text :: "totals \<Rightarrow> nat \<Rightarrow> string" where
  "summary_text t n =
     ''Multi-host health check: '' @ show_nat (totalHealthy t) @ '' healthy, ''
       @ show_nat (totalUnhealthy t) @ '' unhealthy, ''
       @ show_nat (totalDegraded t) @ '' degraded, ''
       @ show_nat (totalUnknown t) @ '' unknown out of ''
       @ show_nat (length (combinedChecks t)) @ '' total services across ''
       @ show_nat n @ '' hosts''"

definition initial_totals :: totals where
  "initial_totals =
     \<lparr> combinedChecks = [], totalHealthy = 0, totalUnhealthy = 0, totalDegraded = 0,
       totalUnknown = 0, overallStatus = ''Healthy'' \<rparr>"

definition combineHealthResults :: "string \<Rightarrow> settled list \<Rightarrow> host list \<Rightarrow> js_error + unified_report" where
  "combineHealthResults now results hs =
     (case forEach_result now hs 0 results initial_totals of
        Inl e \<Rightarrow> Inl e
      | Inr t \<Rightarrow>
          Inr \<lparr> timestamp_r = now,
                overall_status = overallStatus t,
                total_checks = length (combinedChecks t),
                healthy_count = totalHealthy t,
                unhealthy_count = totalUnhealthy t,
                degraded_count = totalDegraded t,
                unknown_count = totalUnknown t,
                checks = combinedChecks t,
                summary = summary_text t (length hs),
                hosts_r = map (host_info_of hs results) hs \<rparr>)"


section \<open>Probes and the result cache (server/healthManager.js)\<close>

text \<open>
  What the outside world answers to one host's probe. \<^verbatim>\<open>spawn\<close> ends with the
  \<^verbatim>\<open>close\<close> event (exit code, \<^verbatim>\<open>null\<close> after a signal, and the collected stdout)
  or with the \<^verbatim>\<open>error\<close> event. \<^verbatim>\<open>axios.get\<close> resolves with the response's data
  or throws (network error, timeout, status outside 2xx) an error with a message.
  \<^verbatim>\<open>JSON.parse\<close> gives a value, \<open>Null\<close> for the text \<^verbatim>\<open>null\<close>, or throws
  (\<open>None\<close>).
\<close>

datatype process_exit = Closed "nat option" string | SpawnError string

datatype axios_result = Response json | Thrown string

record axios_config =
  timeout :: nat
  header_content_type :: string
  header_authorization :: "string option"
  auth :: "(string \<times> string) option"

datatype request = Spawn string "string list" | Get string axios_config

text \<open>
  The environment of one probe: the two collaborators, \<^verbatim>\<open>JSON.parse\<close> on the
  subprocess's output, \<^verbatim>\<open>Date.now()\<close> at the cache check and at the arrival of the
  response, and \<^verbatim>\<open>new Date().toISOString()\<close> in the catch block.
\<close>

record call_env =
  spawn :: "string \<Rightarrow> string list \<Rightarrow> process_exit"
  JSON_parse :: "string \<Rightarrow> json option"
  axios_get :: "string \<Rightarrow> axios_config \<Rightarrow> axios_result"
  clock_read :: int
  clock_write :: int
  clock_iso :: string

record cache_entry =
  data :: json
  timestamp_c :: int

record manager =
  healthCheckerPath :: string
  cache :: "string \<rightharpoonup> cache_entry"
  cacheTimeout :: int

text \<open>The constructor.\<close>

definition HealthCheckManager :: "settings \<Rightarrow> manager" where
  "HealthCheckManager g =
     \<lparr> healthCheckerPath = healthCheckerPath_cfg g, cache = Map.empty, cacheTimeout = 30000 \<rparr>"

definition show_code :: "nat option \<Rightarrow> string" where
  "show_code code = (case code of None \<Rightarrow> ''null'' | Some n \<Rightarrow> show_nat n)"

definition executeLocalHealthChecker :: "call_env \<Rightarrow> string \<Rightarrow> string list \<Rightarrow> string + json" where
  "executeLocalHealthChecker e path args =
     (case spawn e path (args @ [''--format'', ''json'']) of
        Closed code stdout \<Rightarrow>
          (if code = Some 0 then
             (case JSON_parse e stdout of
                Some jsonData \<Rightarrow> Inr jsonData
              | None \<Rightarrow> Inl ''Invalid JSON response from health checker'')
           else Inl (''Health checker failed with exit code '' @ show_code code))
      | SpawnError message \<Rightarrow> Inl message)"

text \<open>
  \<^verbatim>\<open>s || d\<close> on an optional string: \<open>s\<close> when it is defined and not empty, else
  \<open>d\<close>.
\<close>

definition or_else :: "string option \<Rightarrow> string \<Rightarrow> string" where
  "or_else s d = (case s of None \<Rightarrow> d | Some v \<Rightarrow> if v \<noteq> [] then v else d)"

definition axiosConfig :: "settings \<Rightarrow> axios_config" where
  "axiosConfig g =
     (case (apiUsername g, apiPassword g) of
        (Some u, Some p) \<Rightarrow>
          if u \<noteq> [] \<and> p \<noteq> [] then
            \<lparr> timeout = 10000, header_content_type = ''application/json'',
              header_authorization = None, auth = Some (u, p) \<rparr>
          else
            \<lparr> timeout = 10000, header_content_type = ''application/json'',
              header_authorization =
                (case apiToken g of
                   Some tok \<Rightarrow> if tok \<noteq> [] then Some (''Bearer '' @ tok) else None
                 | None \<Rightarrow> None),
              auth = None \<rparr>
      | _ \<Rightarrow>
          \<lparr> timeout = 10000, header_content_type = ''application/json'',
            header_authorization =
              (case apiToken g of
                 Some tok \<Rightarrow> if tok \<noteq> [] then Some (''Bearer '' @ tok) else None
               | None \<Rightarrow> None),
            auth = None \<rparr>)"

definition url :: "host \<Rightarrow> string \<Rightarrow> string" where
  "url h endpoint = ''http://'' @ hhost h @ '':'' @ show_nat (hport h) @ endpoint"

definition cacheKey :: "host \<Rightarrow> string \<Rightarrow> string" where
  "cacheKey h endpoint = hid h @ ''-'' @ endpoint"

text \<open>
  The cache check \<^verbatim>\<open>cached && Date.now() - cached.timestamp < this.cacheTimeout\<close>:
  the cached data on a hit.
\<close>

definition read_cache :: "manager \<Rightarrow> int \<Rightarrow> string \<Rightarrow> json option" where
  "read_cache m now key =
     (case cache m key of
        None \<Rightarrow> None
      | Some cached \<Rightarrow> if now - timestamp_c cached < cacheTimeout m then Some (data cached) else None)"

text \<open>The report the catch block returns.\<close>

definition failure_report :: "string \<Rightarrow> host \<Rightarrow> string \<Rightarrow> host_report" where
  "failure_report now h message =
     \<lparr> timestamp_r = now,
       overall_status = ''Unhealthy'',
       total_checks = 1,
       healthy_count = 0,
       unhealthy_count = 1,
       degraded_count = 0,
       unknown_count = 0,
       checks =
         [\<lparr> service_name = hname h @ '' Connection'',
            status = ''Unhealthy'',
            response_time_ms = 0,
            details = ''Failed to connect to '' @ hhost h @ '':'' @ show_nat (hport h) @ '' - '' @ message,
            timestamp = now,
            error_message = Some message \<rparr>],
       summary = ''Failed to connect to host '' @ hname h \<rparr>"

text \<open>
  The \<^verbatim>\<open>try\<close> block of \<^verbatim>\<open>executeRemoteHealthCheck\<close> and its \<^verbatim>\<open>catch\<close>: the part
  that runs on a miss. The manager it updates is the one of the moment the response
  arrives.
\<close>

definition on_miss :: "manager \<Rightarrow> settings \<Rightarrow> call_env \<Rightarrow> host \<Rightarrow> string \<Rightarrow> json \<times> manager" where
  "on_miss m g e h endpoint =
     (case axios_get e (url h endpoint) (axiosConfig g) of
        Response d \<Rightarrow>
          (d, m\<lparr> cache := (cache m)(cacheKey h endpoint \<mapsto> \<lparr> data = d, timestamp_c = clock_write e \<rparr>) \<rparr>)
      | Thrown message \<Rightarrow> (Object (failure_report (clock_iso e) h message), m))"

text \<open>
  One call of \<^verbatim>\<open>executeRemoteHealthCheck\<close> on its own: the report it returns, the
  manager afterwards and the requests it sent.
\<close>

definition executeRemoteHealthCheck ::
    "manager \<Rightarrow> settings \<Rightarrow> call_env \<Rightarrow> host \<Rightarrow> string \<Rightarrow> json \<times> manager \<times> request list" where
  "executeRemoteHealthCheck m g e h endpoint =
     (case read_cache m (clock_read e) (cacheKey h endpoint) of
        Some d \<Rightarrow> (d, m, [])
      | None \<Rightarrow>
          (case on_miss m g e h endpoint of
             (d, m') \<Rightarrow> (d, m', [Get (url h endpoint) (axiosConfig g)])))"

subsection \<open>The fan-out over the enabled hosts\<close>

text \<open>
  \<^verbatim>\<open>getAllHealthChecks\<close> and \<^verbatim>\<open>getCategoryHealthChecks\<close> map an async function over
  the hosts and wait with \<^verbatim>\<open>Promise.allSettled\<close>. Each mapped function runs up to its
  first \<^verbatim>\<open>await\<close> before the next one starts, so every cache check reads the cache
  as it is when the fan-out begins; the responses arrive later, in an order the world
  chooses (\<open>settle_order\<close>, a list of host indices), and each successful one writes its
  cache entry on arrival.
\<close>

record world =
  call :: "nat \<Rightarrow> call_env"
  settle_order :: "nat list"
  combine_iso :: string

definition is_local :: "host \<Rightarrow> bool" where
  "is_local h = (htype h = ''local'' \<or> hhost h = ''localhost'')"

definition settle :: "manager \<Rightarrow> settings \<Rightarrow> string list \<Rightarrow> string \<Rightarrow> call_env \<Rightarrow> host \<Rightarrow> settled" where
  "settle m g args endpoint e h =
     (if is_local h then
        (case executeLocalHealthChecker e (healthCheckerPath m) args of
           Inl message \<Rightarrow> Rejected message
         | Inr d \<Rightarrow> Fulfilled h d)
      else Fulfilled h (fst (executeRemoteHealthCheck m g e h endpoint)))"

definition requests_of :: "manager \<Rightarrow> settings \<Rightarrow> string list \<Rightarrow> string \<Rightarrow> call_env \<Rightarrow> host \<Rightarrow> request list" where
  "requests_of m g args endpoint e h =
     (if is_local h then [Spawn (healthCheckerPath m) (args @ [''--format'', ''json''])]
      else snd (snd (executeRemoteHealthCheck m g e h endpoint)))"

text \<open>
  The cache write of the host at \<open>index\<close> when its response arrives: \<open>m0\<close> is the
  manager at the start of the fan-out, which decided hit or miss, and \<open>m\<close> the manager
  at the arrival.
\<close>

definition arrive :: "manager \<Rightarrow> settings \<Rightarrow> string \<Rightarrow> world \<Rightarrow> host list \<Rightarrow> manager \<Rightarrow> nat \<Rightarrow> manager" where
  "arrive m0 g endpoint w hs m index =
     (case host_at hs index of
        None \<Rightarrow> m
      | Some h \<Rightarrow>
          if is_local h then m
          else (case read_cache m0 (clock_read (call w index)) (cacheKey h endpoint) of
                  Some d \<Rightarrow> m
                | None \<Rightarrow> snd (on_miss m g (call w index) h endpoint)))"

definition indexed :: "'a list \<Rightarrow> (nat \<times> 'a) list" where
  "indexed xs = zip [0..<length xs] xs"

definition health_checks ::
    "manager \<Rightarrow> config_manager \<Rightarrow> world \<Rightarrow> string list \<Rightarrow> string \<Rightarrow>
       (js_error + unified_report) \<times> manager \<times> (nat \<times> request) list" where
  "health_checks m c w args endpoint =
     (let hs = getEnabledHosts c;
          results = map (\<lambda>(i, h). settle m (config c) args endpoint (call w i) h) (indexed hs);
          sent = concat (map (\<lambda>(i, h). map (Pair i) (requests_of m (config c) args endpoint (call w i) h))
                             (indexed hs));
          m' = foldl (arrive m (config c) endpoint w hs) m (settle_order w)
      in (combineHealthResults (combine_iso w) results hs, m', sent))"

definition getAllHealthChecks ::
    "manager \<Rightarrow> config_manager \<Rightarrow> world \<Rightarrow> (js_error + unified_report) \<times> manager \<times> (nat \<times> request) list" where
  "getAllHealthChecks m c w = health_checks m c w [''all''] ''/api/health/all''"

definition getCategoryHealthChecks ::
    "manager \<Rightarrow> config_manager \<Rightarrow> world \<Rightarrow> string \<Rightarrow>
       (js_error + unified_report) \<times> manager \<times> (nat \<times> request) list" where
  "getCategoryHealthChecks m c w category =
     health_checks m c w [category] (''/api/health/'' @ category)"

subsection \<open>clearCache\<close>

text \<open>
  \<^verbatim>\<open>clearCache(hostId = null)\<close>: the test \<^verbatim>\<open>if (hostId)\<close> is false for a missing
  argument and for the empty string.
\<close>

definition clearCache :: "string option \<Rightarrow> manager \<Rightarrow> manager" where
  "clearCache hostId m =
     (case hostId of
        None \<Rightarrow> m\<lparr> cache := Map.empty \<rparr>
      | Some i \<Rightarrow>
          if i \<noteq> [] then m\<lparr> cache := (\<lambda>key. if prefix (i @ ''-'') key then None else cache m key) \<rparr>
          else m\<lparr> cache := Map.empty \<rparr>)"

section \<open>Registry mutations (server/config.js) and their routes (server/server.js)\<close>

text \<open>
  The body of \<^verbatim>\<open>POST /api/hosts\<close>. A field the request leaves out is \<open>None\<close>;
  \<^verbatim>\<open>name\<close> and \<^verbatim>\<open>host\<close> are copied as they come.
\<close>

record host_config =
  cfg_id :: "string option"
  cfg_name :: string
  cfg_host :: string
  cfg_port :: "nat option"
  cfg_type :: "string option"
  cfg_enabled :: "bool option"
  cfg_description :: "string option"

text \<open>\<^verbatim>\<open>addHost\<close>; \<open>now\<close> is \<^verbatim>\<open>Date.now()\<close>.\<close>

definition addHost :: "int \<Rightarrow> host_config \<Rightarrow> config_manager \<Rightarrow> host \<times> config_manager" where
  "addHost now hostConfig c =
     (let newHost =
        \<lparr> hid = or_else (cfg_id hostConfig) (''dynamic-'' @ show_int now),
          hname = cfg_name hostConfig,
          hhost = cfg_host hostConfig,
          hport = (case cfg_port hostConfig of Some p \<Rightarrow> if p \<noteq> 0 then p else 8095 | None \<Rightarrow> 8095),
          htype = or_else (cfg_type hostConfig) ''dynamic'',
          henabled = (cfg_enabled hostConfig \<noteq> Some False),
          hdescription = or_else (cfg_description hostConfig) [] \<rparr>
      in (newHost, c\<lparr> hosts := hosts c @ [newHost] \<rparr>))"

fun findIndex :: "('a \<Rightarrow> bool) \<Rightarrow> 'a list \<Rightarrow> nat option" where
  "findIndex P [] = None"
| "findIndex P (x # xs) =
     (if P x then Some 0 else (case findIndex P xs of None \<Rightarrow> None | Some i \<Rightarrow> Some (Suc i)))"

text \<open>\<^verbatim>\<open>removeHost\<close>: \<^verbatim>\<open>splice(index, 1)\<close> takes the first host with the id out.\<close>

definition removeHost :: "string \<Rightarrow> config_manager \<Rightarrow> host option \<times> config_manager" where
  "removeHost i c =
     (case findIndex (\<lambda>h. hid h = i) (hosts c) of
        Some index \<Rightarrow>
          (Some (hosts c ! index), c\<lparr> hosts := take index (hosts c) @ drop (Suc index) (hosts c) \<rparr>)
      | None \<Rightarrow> (None, c))"

text \<open>The body of \<^verbatim>\<open>PUT /api/hosts/:id\<close>: the fields to overwrite.\<close>

record host_updates =
  upd_id :: "string option"
  upd_name :: "string option"
  upd_host :: "string option"
  upd_port :: "nat option"
  upd_type :: "string option"
  upd_enabled :: "bool option"
  upd_description :: "string option"

definition assign :: "host \<Rightarrow> host_updates \<Rightarrow> host" where
  "assign h u =
     \<lparr> hid = (case upd_id u of Some v \<Rightarrow> v | None \<Rightarrow> hid h),
       hname = (case upd_name u of Some v \<Rightarrow> v | None \<Rightarrow> hname h),
       hhost = (case upd_host u of Some v \<Rightarrow> v | None \<Rightarrow> hhost h),
       hport = (case upd_port u of Some v \<Rightarrow> v | None \<Rightarrow> hport h),
       htype = (case upd_type u of Some v \<Rightarrow> v | None \<Rightarrow> htype h),
       henabled = (case upd_enabled u of Some v \<Rightarrow> v | None \<Rightarrow> henabled h),
       hdescription = (case upd_description u of Some v \<Rightarrow> v | None \<Rightarrow> hdescription h) \<rparr>"

text \<open>
  \<^verbatim>\<open>updateHost\<close>: \<^verbatim>\<open>Object.assign\<close> writes into the host \<^verbatim>\<open>getHostById\<close> found,
  the first one with the id.
\<close>

definition updateHost :: "string \<Rightarrow> host_updates \<Rightarrow> config_manager \<Rightarrow> host option \<times> config_manager" where
  "updateHost i updates c =
     (case findIndex (\<lambda>h. hid h = i) (hosts c) of
        Some index \<Rightarrow>
          (let h' = assign (hosts c ! index) updates
           in (Some h', c\<lparr> hosts := (hosts c)[index := h'] \<rparr>))
      | None \<Rightarrow> (None, c))"

text \<open>
  The server holds the two singletons. A route returns the HTTP status, the host in the
  body (if any) and the server afterwards.
\<close>

record server =
  registry :: config_manager
  healthManager :: manager

definition post_hosts :: "int \<Rightarrow> host_config \<Rightarrow> server \<Rightarrow> nat \<times> host option \<times> server" where
  "post_hosts now hostConfig s =
     (case addHost now hostConfig (registry s) of
        (newHost, c') \<Rightarrow>
          (201, Some newHost, \<lparr> registry = c', healthManager = clearCache None (healthManager s) \<rparr>))"

definition put_hosts :: "string \<Rightarrow> host_updates \<Rightarrow> server \<Rightarrow> nat \<times> host option \<times> server" where
  "put_hosts i updates s =
     (case updateHost i updates (registry s) of
        (Some updatedHost, c') \<Rightarrow>
          (200, Some updatedHost, \<lparr> registry = c', healthManager = clearCache (Some i) (healthManager s) \<rparr>)
      | (None, c') \<Rightarrow> (404, None, \<lparr> registry = c', healthManager = healthManager s \<rparr>))"

definition delete_hosts :: "string \<Rightarrow> server \<Rightarrow> nat \<times> host option \<times> server" where
  "delete_hosts i s =
     (case removeHost i (registry s) of
        (Some removedHost, c') \<Rightarrow>
          (200, Some removedHost, \<lparr> registry = c', healthManager = clearCache (Some i) (healthManager s) \<rparr>)
      | (None, c') \<Rightarrow> (404, None, \<lparr> registry = c', healthManager = healthManager s \<rparr>))"

section \<open>Log retrieval (server/logManager.js)\<close>






definition lower_char :: "char \<Rightarrow> char" where
  "lower_char c =
     (case map_of (zip ''ABCDEFGHIJKLMNOPQRSTUVWXYZ'' ''abcdefghijklmnopqrstuvwxyz'') c of
        Some d \<Rightarrow> d
      | None \<Rightarrow> c)"


definition toLowerCase :: "string \<Rightarrow> string" where
  "toLowerCase s = map lower_char s"




subsection \<open>The matchers\<close>

















subsection \<open>Sources\<close>

record log_entry =
  line :: nat
  timestamp_l :: "string option"
  level :: string
  message :: string

record log_source =
  source :: string
  path :: "string option"
  container :: "string option"
  total_lines :: nat
  logs :: "log_entry list"





definition supportedServices :: "string list" where
  "supportedServices = [''etcd'', ''redis'', ''manager'', ''agent'']"







subsection \<open>Mock logs\<close>





subsection \<open>getServiceLogs\<close>










section \<open>Notions the properties are stated with\<close>

text \<open>
  The outcome of one host as the precedence rule reads it: the overall status of its
  report, and \<^verbatim>\<open>'Unhealthy'\<close> for a rejected host. A null payload has no status, and
  with one no report comes about.
\<close>

definition outcome_status :: "settled \<Rightarrow> string" where
  "outcome_status result =
     (case result of
        Fulfilled vh Null \<Rightarrow> []
      | Fulfilled vh (Object d) \<Rightarrow> overall_status d
      | Rejected reason \<Rightarrow> ''Unhealthy'')"

text \<open>
  The precedence rule in the words of the specification: Unhealthy if any outcome is
  Unhealthy, else Degraded if any is Degraded, else Healthy.
\<close>

definition precedence :: "string list \<Rightarrow> string" where
  "precedence outcomes =
     (if ''Unhealthy'' \<in> set outcomes then ''Unhealthy''
      else if ''Degraded'' \<in> set outcomes then ''Degraded''
      else ''Healthy'')"

text \<open>
  The probe result that stands for a local host whose checker failed: the connection
  failure \<^verbatim>\<open>combineHealthResults\<close> writes for a rejected promise, before the host's
  name is put in front.
\<close>

definition connection_check :: "string \<Rightarrow> host \<Rightarrow> string \<Rightarrow> check" where
  "connection_check now h reason =
     \<lparr> service_name = ''Connection'',
       status = ''Unhealthy'',
       response_time_ms = 0,
       details = ''Failed to connect to '' @ hhost h @ '':'' @ show_nat (hport h),
       timestamp = now,
       error_message = Some (if reason = [] then ''Connection failed'' else reason) \<rparr>"


text \<open>The same for a settled promise, as \<^verbatim>\<open>combineHealthResults\<close> receives it.\<close>

definition settled_checks :: "string \<Rightarrow> host \<Rightarrow> settled \<Rightarrow> check list option" where
  "settled_checks now h result =
     (case result of
        Fulfilled vh Null \<Rightarrow> None
      | Fulfilled vh (Object d) \<Rightarrow> Some (checks d)
      | Rejected reason \<Rightarrow> Some [connection_check now h reason])"

text \<open>
  What can change the cache after a route has answered: the response of a probe arrives,
  from a request sent before or after, and the continuation of
  \<^verbatim>\<open>executeRemoteHealthCheck\<close> stores it; or \<^verbatim>\<open>clearCache\<close> is called again.
\<close>

datatype later = Arrives settings call_env host string | Clears "string option"

fun later_step :: "manager \<Rightarrow> later \<Rightarrow> manager" where
  "later_step m (Arrives g e h endpoint) = snd (on_miss m g e h endpoint)"
| "later_step m (Clears hostId) = clearCache hostId m"

text \<open>An entry that one of the events stored under the key.\<close>

definition stored_by :: "later list \<Rightarrow> string \<Rightarrow> cache_entry \<Rightarrow> bool" where
  "stored_by evs key entry =
     (\<exists>ev \<in> set evs.
        case ev of
          Arrives g e h endpoint \<Rightarrow>
            cacheKey h endpoint = key \<and>
            axios_get e (url h endpoint) (axiosConfig g) = Response (data entry) \<and>
            timestamp_c entry = clock_write e
        | Clears hostId \<Rightarrow> False)"

text \<open>The requests a cycle sent for the host at index \<open>i\<close> of the enabled hosts.\<close>

definition sent_to :: "nat \<Rightarrow> (nat \<times> request) list \<Rightarrow> request list" where
  "sent_to i sent = map snd (filter (\<lambda>p. fst p = i) sent)"

section \<open>Sample data\<close>

definition example_host :: "string \<Rightarrow> string \<Rightarrow> nat \<Rightarrow> string \<Rightarrow> host" where
  "example_host i address p ty =
     \<lparr> hid = i, hname = i, hhost = address, hport = p, htype = ty, henabled = True,
       hdescription = [] \<rparr>"

definition example_report :: "string \<Rightarrow> string \<Rightarrow> json" where
  "example_report name st =
     Object
     \<lparr> timestamp_r = ''2025-01-01T00:00:00.000Z'',
       overall_status = st,
       total_checks = 1,
       healthy_count = (if st = ''Healthy'' then 1 else 0),
       unhealthy_count = (if st = ''Unhealthy'' then 1 else 0),
       degraded_count = (if st = ''Degraded'' then 1 else 0),
       unknown_count = (if st = ''Unknown'' then 1 else 0),
       checks = [\<lparr> service_name = name, status = st, response_time_ms = 3, details = ''ok'',
                   timestamp = ''2025-01-01T00:00:00.000Z'', error_message = None \<rparr>],
       summary = ''1 check'' \<rparr>"

definition example_settings :: settings where
  "example_settings =
     \<lparr> healthCheckerPath_cfg = ''/opt/backend-ai-health-checker'', apiUsername = None,
       apiPassword = None, apiToken = None \<rparr>"

definition example_env :: "process_exit \<Rightarrow> axios_result \<Rightarrow> int \<Rightarrow> call_env" where
  "example_env exit answer now =
     \<lparr> spawn = (\<lambda>p args. exit),
       JSON_parse = (\<lambda>stdout. if stdout = ''{}'' then Some (example_report ''etcd'' ''Healthy'')
                              else if stdout = ''null'' then Some Null
                              else None),
       axios_get = (\<lambda>u cfg. answer),
       clock_read = now,
       clock_write = now + 40,
       clock_iso = ''2025-01-01T00:00:02.000Z'' \<rparr>"

definition example_manager :: "(string \<times> cache_entry) list \<Rightarrow> manager" where
  "example_manager entries =
     \<lparr> healthCheckerPath = ''/opt/backend-ai-health-checker'', cache = map_of entries,
       cacheTimeout = 30000 \<rparr>"

definition example_registry :: "host list \<Rightarrow> config_manager" where
  "example_registry hs = \<lparr> hosts = hs, config = example_settings \<rparr>"

definition example_world :: "(nat \<Rightarrow> call_env) \<Rightarrow> nat list \<Rightarrow> world" where
  "example_world envs order =
     \<lparr> call = envs, settle_order = order, combine_iso = ''2025-01-01T00:00:03.000Z'' \<rparr>"

definition example_host_config :: "string \<Rightarrow> string \<Rightarrow> host_config" where
  "example_host_config i address =
     \<lparr> cfg_id = Some i, cfg_name = i, cfg_host = address, cfg_port = None, cfg_type = Some ''agent'',
       cfg_enabled = None, cfg_description = None \<rparr>"

definition example_cycle :: "int \<Rightarrow> world" where
  "example_cycle now =
     example_world
       (\<lambda>i. example_env (Closed (Some 0) ''{}'') (Response (example_report ''redis'' ''Healthy'')) now)
       [0, 1]"

definition example_cluster :: config_manager where
  "example_cluster =
     example_registry
       [example_host ''h1'' ''localhost'' 8095 ''local'', example_host ''h2'' ''10.0.0.5'' 9999 ''agent'']"

definition example_server :: server where
  "example_server =
     \<lparr> registry = example_cluster,
       healthManager =
         example_manager
           [(''h2-/api/health/all'',
             \<lparr> data = example_report ''redis'' ''Healthy'', timestamp_c = 1040 \<rparr>)] \<rparr>"

definition example_idle_server :: server where
  "example_idle_server = \<lparr> registry = example_cluster, healthManager = example_manager [] \<rparr>"

text \<open>Two peers that answer differently: the one at 10.0.0.5 Degraded, any other Healthy.\<close>

definition example_two_peers :: "int \<Rightarrow> call_env" where
  "example_two_peers now =
     \<lparr> spawn = (\<lambda>p args. SpawnError ''unused''),
       JSON_parse = (\<lambda>stdout. None),
       axios_get = (\<lambda>u cfg. if u = ''http://10.0.0.5:9999/api/health/all''
                              then Response (example_report ''redis'' ''Degraded'')
                              else Response (example_report ''redis'' ''Healthy'')),
       clock_read = now,
       clock_write = now + 40,
       clock_iso = ''2025-01-01T00:00:02.000Z'' \<rparr>"

definition example_updates :: host_updates where
  "example_updates =
     \<lparr> upd_id = None, upd_name = None, upd_host = Some ''10.0.0.7'', upd_port = None,
       upd_type = None, upd_enabled = None, upd_description = None \<rparr>"



section \<open>Properties\<close>

subsection \<open>The loop of combineHealthResults\<close>

lemma js_error_is_TypeError: "(e :: js_error) = TypeError"
  by (cases e) simp

lemma absorb_overallStatus:
  "absorb now h result t = Inr t' \<Longrightarrow>
   overallStatus t' =
     (if outcome_status result = ''Unhealthy'' then ''Unhealthy''
      else if outcome_status result = ''Degraded'' \<and> overallStatus t \<noteq> ''Unhealthy'' then ''Degraded''
      else overallStatus t)"
  by (auto simp: absorb_def outcome_status_def
           split: settled.splits json.splits option.splits if_splits sum.splits)

lemma forEach_result_overallStatus:
  "forEach_result now hs index results t = Inr t' \<Longrightarrow>
   overallStatus t' =
     (if ''Unhealthy'' \<in> outcome_status ` set results \<or> overallStatus t = ''Unhealthy'' then ''Unhealthy''
      else if ''Degraded'' \<in> outcome_status ` set results then ''Degraded''
      else overallStatus t)"
proof (induction results arbitrary: index t)
  case Nil
  then show ?case by simp
next
  case (Cons result rest)
  from Cons.prems obtain t1 where
    a: "absorb now (host_at hs index) result t = Inr t1" and
    r: "forEach_result now hs (Suc index) rest t1 = Inr t'"
    by (auto split: sum.splits)
  show ?case
    unfolding Cons.IH [OF r] absorb_overallStatus [OF a]
    by (simp; fail | (auto simp del: ex_simps; fail))
qed

lemma settled_checks_None: "settled_checks now h result = None \<longleftrightarrow> (\<exists>vh. result = Fulfilled vh Null)"
  by (auto simp: settled_checks_def split: settled.splits json.splits)

lemma absorb_null: "absorb now h (Fulfilled vh Null) t = Inl TypeError"
  by (simp add: absorb_def)

lemma absorb_total:
  "settled_checks now h result \<noteq> None \<Longrightarrow> \<exists>t'. absorb now' (Some h') result t = Inr t'"
  by (auto simp: absorb_def settled_checks_def split: settled.splits json.splits)


lemma forEach_result_total:
  "index + length results \<le> length hs \<Longrightarrow> \<forall>vh. Fulfilled vh Null \<notin> set results \<Longrightarrow>
   \<exists>t'. forEach_result now hs index results t = Inr t'"
proof (induction results arbitrary: index t)
  case Nil
  then show ?case by simp
next
  case (Cons result rest)
  from Cons.prems(1) have at: "host_at hs index = Some (hs ! index)" by (simp add: host_at_def)
  from Cons.prems(2) have "settled_checks now (hs ! index) result \<noteq> None"
    by (auto simp: settled_checks_None)
  then obtain t1 where a: "absorb now (Some (hs ! index)) result t = Inr t1"
    using absorb_total by blast
  from Cons.prems have "Suc index + length rest \<le> length hs" and "\<forall>vh. Fulfilled vh Null \<notin> set rest"
    by simp_all
  from Cons.IH [OF this] a at show ?case by simp
qed

lemma forEach_result_null:
  "Fulfilled vh Null \<in> set results \<Longrightarrow> forEach_result now hs index results t = Inl TypeError"
proof (induction results arbitrary: index t)
  case Nil
  then show ?case by simp
next
  case (Cons result rest)
  show ?case
  proof (cases "absorb now (host_at hs index) result t")
    case (Inl e)
    then show ?thesis by (simp add: js_error_is_TypeError [of e])
  next
    case (Inr t1)
    then have "result \<noteq> Fulfilled vh Null" by (auto simp: absorb_null)
    with Cons.prems have "Fulfilled vh Null \<in> set rest" by simp
    from Cons.IH [OF this] Inr show ?thesis by simp
  qed
qed


lemma length_indexed [simp]: "length (indexed xs) = length xs"
  by (simp add: indexed_def)

lemma map_snd_indexed [simp]: "map snd (indexed xs) = xs"
  by (simp add: indexed_def)


subsection \<open>What a settled promise holds\<close>




subsection \<open>Overall status\<close>

text \<open>
  Claim C1. Whatever results and hosts \<^verbatim>\<open>combineHealthResults\<close> is given, the overall
  status of the report it returns is \<^verbatim>\<open>Unhealthy\<close> if the outcome of some host is
  Unhealthy (a rejected host counts as Unhealthy), otherwise \<^verbatim>\<open>Degraded\<close> if the
  outcome of some host is Degraded, otherwise \<^verbatim>\<open>Healthy\<close>. When there are no more
  results than hosts, as in every call the server makes, it returns a report exactly when
  no fulfilled result holds a null payload.
\<close>

theorem overall_status_precedence:
  "(length results \<le> length hs \<longrightarrow>
      ((\<exists>r. combineHealthResults now results hs = Inr r) \<longleftrightarrow>
       (\<forall>vh. Fulfilled vh Null \<notin> set results))) \<and>
   (\<forall>r. combineHealthResults now results hs = Inr r \<longrightarrow>
        overall_status r = precedence (map outcome_status results))"
proof (intro conjI impI allI)
  assume len: "length results \<le> length hs"
  show "(\<exists>r. combineHealthResults now results hs = Inr r) \<longleftrightarrow>
        (\<forall>vh. Fulfilled vh Null \<notin> set results)"
  proof
    assume "\<exists>r. combineHealthResults now results hs = Inr r"
    then have ok: "\<exists>t. forEach_result now hs 0 results initial_totals = Inr t"
      by (auto simp: combineHealthResults_def split: sum.splits)
    show "\<forall>vh. Fulfilled vh Null \<notin> set results"
    proof (intro allI notI)
      fix vh assume "Fulfilled vh Null \<in> set results"
      from forEach_result_null [OF this] ok show False by simp
    qed
  next
    assume "\<forall>vh. Fulfilled vh Null \<notin> set results"
    with len obtain t where "forEach_result now hs 0 results initial_totals = Inr t"
      using forEach_result_total [of 0 results hs now initial_totals] by auto
    then show "\<exists>r. combineHealthResults now results hs = Inr r"
      by (simp add: combineHealthResults_def)
  qed
next
  fix r
  assume "combineHealthResults now results hs = Inr r"
  then obtain t where t: "forEach_result now hs 0 results initial_totals = Inr t"
    and r: "overall_status r = overallStatus t"
    by (auto simp: combineHealthResults_def split: sum.splits)
  show "overall_status r = precedence (map outcome_status results)"
    unfolding r forEach_result_overallStatus [OF t]
    by (simp add: precedence_def initial_totals_def)
qed

theorem overall_status_precedence_witness:
  "\<exists>r. combineHealthResults ''2025-01-01T00:00:01.000Z''
          [Fulfilled (example_host ''h1'' ''10.0.0.4'' 8095 ''agent'') (example_report ''redis'' ''Degraded''),
           Rejected ''spawn ENOENT'',
           Fulfilled (example_host ''h3'' ''10.0.0.6'' 8095 ''agent'') (example_report ''etcd'' ''Healthy'')]
          [example_host ''h1'' ''10.0.0.4'' 8095 ''agent'',
           example_host ''h0'' ''localhost'' 8095 ''local'',
           example_host ''h3'' ''10.0.0.6'' 8095 ''agent''] = Inr r \<and>
       overall_status r = ''Unhealthy''"
  using overall_status_precedence
    [of "[Fulfilled (example_host ''h1'' ''10.0.0.4'' 8095 ''agent'') (example_report ''redis'' ''Degraded''),
           Rejected ''spawn ENOENT'',
           Fulfilled (example_host ''h3'' ''10.0.0.6'' 8095 ''agent'') (example_report ''etcd'' ''Healthy'')]"
        "[example_host ''h1'' ''10.0.0.4'' 8095 ''agent'',
           example_host ''h0'' ''localhost'' 8095 ''local'',
           example_host ''h3'' ''10.0.0.6'' 8095 ''agent'']"
        "''2025-01-01T00:00:01.000Z''"]
  by (auto simp: precedence_def outcome_status_def example_report_def)

subsection \<open>One entry per probe result\<close>




subsection \<open>Remote probes and the cache\<close>

text \<open>
  Claim C4. On a miss, when \<^verbatim>\<open>axios.get\<close> throws (a network error, a timeout or a
  status outside 2xx), \<^verbatim>\<open>executeRemoteHealthCheck\<close> returns the synthesized report:
  overall status Unhealthy and exactly one check, Unhealthy, named after the host with
  \<^verbatim>\<open>" Connection"\<close>, whose details and error message carry the failure. The model
  of the call returns in every case, it has no error result.
\<close>

theorem remote_failure_is_synthesized:
  assumes "read_cache m (clock_read e) (cacheKey h endpoint) = None"
    and "axios_get e (url h endpoint) (axiosConfig g) = Thrown msg"
  shows "executeRemoteHealthCheck m g e h endpoint =
           (Object (failure_report (clock_iso e) h msg), m, [Get (url h endpoint) (axiosConfig g)]) \<and>
         overall_status (failure_report (clock_iso e) h msg) = ''Unhealthy'' \<and>
         (\<exists>ck. checks (failure_report (clock_iso e) h msg) = [ck] \<and>
               status ck = ''Unhealthy'' \<and>
               service_name ck = hname h @ '' Connection'' \<and>
               details ck = ''Failed to connect to '' @ hhost h @ '':'' @ show_nat (hport h) @ '' - '' @ msg \<and>
               error_message ck = Some msg)"
  using assms by (simp add: executeRemoteHealthCheck_def on_miss_def failure_report_def)

theorem remote_failure_is_synthesized_witness:
  "executeRemoteHealthCheck (HealthCheckManager example_settings) example_settings
       (example_env (SpawnError ''unused'') (Thrown ''timeout of 10000ms exceeded'') 1000)
       (example_host ''h2'' ''10.0.0.5'' 9999 ''agent'') ''/api/health/all'' =
     (Object (failure_report ''2025-01-01T00:00:02.000Z'' (example_host ''h2'' ''10.0.0.5'' 9999 ''agent'')
        ''timeout of 10000ms exceeded''),
      HealthCheckManager example_settings,
      [Get ''http://10.0.0.5:9999/api/health/all'' (axiosConfig example_settings)]) \<and>
   map service_name (checks (failure_report ''2025-01-01T00:00:02.000Z''
        (example_host ''h2'' ''10.0.0.5'' 9999 ''agent'') ''timeout of 10000ms exceeded'')) = [''h2 Connection'']"
  using remote_failure_is_synthesized [of "HealthCheckManager example_settings"
      "example_env (SpawnError ''unused'') (Thrown ''timeout of 10000ms exceeded'') 1000"
      "example_host ''h2'' ''10.0.0.5'' 9999 ''agent''" "''/api/health/all''" example_settings
      "''timeout of 10000ms exceeded''"]
  by (simp add: read_cache_def HealthCheckManager_def example_env_def url_def example_host_def
        show_nat.simps digit_char_def failure_report_def)

text \<open>
  Claim C3, as amended. A cache entry whose age has reached the timeout (30000 ms in the
  constructor), or a missing one, is not returned: the call sends the request, and returns
  the response and stores it with the arrival time, or, when the request fails, returns the
  synthesized failure report and leaves the cache as it was.
\<close>

theorem stale_or_absent_entry_is_reprobed:
  assumes "\<forall>cached. cache m (cacheKey h endpoint) = Some cached \<longrightarrow>
             cacheTimeout m \<le> clock_read e - timestamp_c cached"
  shows "executeRemoteHealthCheck m g e h endpoint =
           (case axios_get e (url h endpoint) (axiosConfig g) of
              Response d \<Rightarrow>
                (d,
                 m\<lparr> cache := (cache m)(cacheKey h endpoint \<mapsto> \<lparr> data = d, timestamp_c = clock_write e \<rparr>) \<rparr>,
                 [Get (url h endpoint) (axiosConfig g)])
            | Thrown msg \<Rightarrow>
                (Object (failure_report (clock_iso e) h msg), m,
                 [Get (url h endpoint) (axiosConfig g)])) \<and>
         cacheTimeout (HealthCheckManager g) = 30000"
proof -
  from assms have "read_cache m (clock_read e) (cacheKey h endpoint) = None"
    by (auto simp: read_cache_def split: option.splits)
  then show ?thesis
    by (simp add: executeRemoteHealthCheck_def on_miss_def HealthCheckManager_def
             split: axios_result.splits)
qed

theorem stale_or_absent_entry_is_reprobed_witness:
  "executeRemoteHealthCheck
     (example_manager [(''h2-/api/health/all'',
         \<lparr> data = example_report ''etcd'' ''Degraded'', timestamp_c = 0 \<rparr>)])
     example_settings
     (example_env (SpawnError ''unused'') (Response (example_report ''etcd'' ''Healthy'')) 30000)
     (example_host ''h2'' ''10.0.0.5'' 9999 ''agent'') ''/api/health/all'' =
     (example_report ''etcd'' ''Healthy'',
      example_manager [(''h2-/api/health/all'',
         \<lparr> data = example_report ''etcd'' ''Healthy'', timestamp_c = 30040 \<rparr>)],
      [Get ''http://10.0.0.5:9999/api/health/all'' (axiosConfig example_settings)])"
  using stale_or_absent_entry_is_reprobed [of "example_manager [(''h2-/api/health/all'',
         \<lparr> data = example_report ''etcd'' ''Degraded'', timestamp_c = 0 \<rparr>)]"
      "example_host ''h2'' ''10.0.0.5'' 9999 ''agent''" "''/api/health/all''"
      "example_env (SpawnError ''unused'') (Response (example_report ''etcd'' ''Healthy'')) 30000"
      example_settings]
  by (simp add: example_manager_def example_env_def example_host_def cacheKey_def url_def
        show_nat.simps digit_char_def fun_upd_def fun_eq_iff)

text \<open>
  Against claim C3 as stated: with an empty cache and an unreachable host the request is
  sent and its result, the failure report, is not stored.
\<close>

theorem failed_probe_is_not_cached:
  "read_cache (HealthCheckManager example_settings) 1000 ''h2-/api/health/all'' = None \<and>
   snd (snd (executeRemoteHealthCheck (HealthCheckManager example_settings) example_settings
       (example_env (SpawnError ''unused'') (Thrown ''connect ECONNREFUSED 10.0.0.5:9999'') 1000)
       (example_host ''h2'' ''10.0.0.5'' 9999 ''agent'') ''/api/health/all'')) =
     [Get ''http://10.0.0.5:9999/api/health/all'' (axiosConfig example_settings)] \<and>
   cache (fst (snd (executeRemoteHealthCheck (HealthCheckManager example_settings) example_settings
       (example_env (SpawnError ''unused'') (Thrown ''connect ECONNREFUSED 10.0.0.5:9999'') 1000)
       (example_host ''h2'' ''10.0.0.5'' 9999 ''agent'') ''/api/health/all'')))
     ''h2-/api/health/all'' = None"
  by (simp add: executeRemoteHealthCheck_def on_miss_def read_cache_def HealthCheckManager_def
        example_env_def example_host_def cacheKey_def url_def show_nat.simps digit_char_def)

subsection \<open>Online and offline hosts\<close>

text \<open>A remote host's promise is never rejected.\<close>

lemma remote_host_never_rejected:
  "\<not> is_local h \<Longrightarrow> \<exists>d. settle m g args endpoint e h = Fulfilled h d"
  by (simp add: settle_def)

text \<open>
  Claim C5, at the input of the spec's scenario B: one enabled remote host whose endpoint
  refuses the connection. The cycle reports the synthesized Unhealthy entry and the overall
  status Unhealthy, and marks the host online: \<^verbatim>\<open>executeRemoteHealthCheck\<close> catches
  the error, so the promise is fulfilled, and only a rejected promise is marked offline.
\<close>

theorem unreachable_remote_host_is_marked_online:
  "map_sum (\<lambda>e. e) (\<lambda>r. (overall_status r, map service_name (checks r), map info_status (hosts_r r)))
     (fst (getAllHealthChecks (HealthCheckManager example_settings)
        (example_registry [example_host ''h2'' ''10.0.0.5'' 9999 ''agent''])
        (example_world
           (\<lambda>i. example_env (SpawnError ''unused'') (Thrown ''connect ECONNREFUSED 10.0.0.5:9999'') 1000)
           [0]))) =
   Inr (''Unhealthy'', [''h2: h2 Connection''], [''online''])"
  by (simp add: getAllHealthChecks_def health_checks_def getEnabledHosts_def example_registry_def
        example_host_def indexed_def settle_def is_local_def executeRemoteHealthCheck_def
        on_miss_def read_cache_def HealthCheckManager_def example_env_def example_world_def
        combineHealthResults_def initial_totals_def absorb_def host_at_def failure_report_def
        tag_check_def host_info_of_def host_status_def cacheKey_def)

subsection \<open>clearCache\<close>

text \<open>
  Claim C10, as amended. For a host id that is not empty, \<^verbatim>\<open>clearCache(hostId)\<close>
  deletes exactly the entries whose key begins with the id followed by \<^verbatim>\<open>"-"\<close> and
  leaves every other entry, and the other fields of the manager, unchanged; without an
  argument, and with the empty id, it empties the cache.
\<close>

theorem clearCache_effect:
  "(hostId \<noteq> [] \<longrightarrow>
      cache (clearCache (Some hostId) m) key =
        (if prefix (hostId @ ''-'') key then None else cache m key)) \<and>
   cache (clearCache None m) key = None \<and>
   cache (clearCache (Some []) m) key = None \<and>
   cacheTimeout (clearCache optId m) = cacheTimeout m \<and>
   healthCheckerPath (clearCache optId m) = healthCheckerPath m"
  by (simp add: clearCache_def split: option.splits)

theorem clearCache_effect_witness:
  "cache (clearCache (Some ''a'')
      (example_manager
         [(''a-/api/health/all'', \<lparr> data = example_report ''etcd'' ''Healthy'', timestamp_c = 0 \<rparr>),
          (''a-b-/api/health/gpu'', \<lparr> data = example_report ''gpu'' ''Healthy'', timestamp_c = 5 \<rparr>),
          (''ab-/api/health/all'', \<lparr> data = example_report ''redis'' ''Healthy'', timestamp_c = 7 \<rparr>)]))
      ''a-b-/api/health/gpu'' = None \<and>
   cache (clearCache (Some ''a'')
      (example_manager
         [(''a-/api/health/all'', \<lparr> data = example_report ''etcd'' ''Healthy'', timestamp_c = 0 \<rparr>),
          (''a-b-/api/health/gpu'', \<lparr> data = example_report ''gpu'' ''Healthy'', timestamp_c = 5 \<rparr>),
          (''ab-/api/health/all'', \<lparr> data = example_report ''redis'' ''Healthy'', timestamp_c = 7 \<rparr>)]))
      ''ab-/api/health/all'' = Some \<lparr> data = example_report ''redis'' ''Healthy'', timestamp_c = 7 \<rparr>"
  using
    clearCache_effect [of "''a''" "example_manager
         [(''a-/api/health/all'', \<lparr> data = example_report ''etcd'' ''Healthy'', timestamp_c = 0 \<rparr>),
          (''a-b-/api/health/gpu'', \<lparr> data = example_report ''gpu'' ''Healthy'', timestamp_c = 5 \<rparr>),
          (''ab-/api/health/all'', \<lparr> data = example_report ''redis'' ''Healthy'', timestamp_c = 7 \<rparr>)]"
        "''a-b-/api/health/gpu''" None]
    clearCache_effect [of "''a''" "example_manager
         [(''a-/api/health/all'', \<lparr> data = example_report ''etcd'' ''Healthy'', timestamp_c = 0 \<rparr>),
          (''a-b-/api/health/gpu'', \<lparr> data = example_report ''gpu'' ''Healthy'', timestamp_c = 5 \<rparr>),
          (''ab-/api/health/all'', \<lparr> data = example_report ''redis'' ''Healthy'', timestamp_c = 7 \<rparr>)]"
        "''ab-/api/health/all''" None]
  by (simp add: example_manager_def)

text \<open>
  Against claim C10 as stated: with the empty string as host id an entry whose key does not
  begin with \<^verbatim>\<open>"-"\<close> is deleted.
\<close>

theorem clearCache_empty_id_clears_all:
  "cache (example_manager
      [(''a-/api/health/all'', \<lparr> data = example_report ''etcd'' ''Healthy'', timestamp_c = 0 \<rparr>)])
     ''a-/api/health/all'' = Some \<lparr> data = example_report ''etcd'' ''Healthy'', timestamp_c = 0 \<rparr> \<and>
   \<not> prefix ([] @ ''-'') ''a-/api/health/all'' \<and>
   cache (clearCache (Some [])
     (example_manager
        [(''a-/api/health/all'', \<lparr> data = example_report ''etcd'' ''Healthy'', timestamp_c = 0 \<rparr>)]))
     ''a-/api/health/all'' = None"
  by (simp add: clearCache_def example_manager_def)

subsection \<open>Registry mutations\<close>

lemma findIndex_None: "findIndex P xs = None \<longleftrightarrow> (\<forall>x\<in>set xs. \<not> P x)"
  by (induction xs) (auto split: option.splits)

lemma findIndex_Some: "\<exists>x\<in>set xs. P x \<Longrightarrow> \<exists>i. findIndex P xs = Some i"
  using findIndex_None [of P xs] by (cases "findIndex P xs") auto

lemma read_cache_None: "cache m key = None \<Longrightarrow> read_cache m t key = None"
  by (simp add: read_cache_def)

lemma post_hosts_manager:
  "healthManager (snd (snd (post_hosts now hostConfig s))) = clearCache None (healthManager s)"
  by (simp add: post_hosts_def addHost_def Let_def)

lemma put_hosts_found:
  "i \<in> hid ` set (hosts (registry s)) \<Longrightarrow>
   fst (put_hosts i updates s) = 200 \<and>
   healthManager (snd (snd (put_hosts i updates s))) = clearCache (Some i) (healthManager s)"
proof -
  assume "i \<in> hid ` set (hosts (registry s))"
  then have "\<exists>x\<in>set (hosts (registry s)). hid x = i" by auto
  from findIndex_Some [of "hosts (registry s)" "\<lambda>x. hid x = i", OF this]
  obtain index where "findIndex (\<lambda>x. hid x = i) (hosts (registry s)) = Some index" by blast
  then show ?thesis by (simp add: put_hosts_def updateHost_def Let_def)
qed

lemma delete_hosts_found:
  "i \<in> hid ` set (hosts (registry s)) \<Longrightarrow>
   fst (delete_hosts i s) = 200 \<and>
   healthManager (snd (snd (delete_hosts i s))) = clearCache (Some i) (healthManager s)"
proof -
  assume "i \<in> hid ` set (hosts (registry s))"
  then have "\<exists>x\<in>set (hosts (registry s)). hid x = i" by auto
  from findIndex_Some [of "hosts (registry s)" "\<lambda>x. hid x = i", OF this]
  obtain index where "findIndex (\<lambda>x. hid x = i) (hosts (registry s)) = Some index" by blast
  then show ?thesis by (simp add: delete_hosts_def removeHost_def)
qed

text \<open>
  Whatever happens to the cache later, an entry found under a key that was empty has been
  stored by a response that arrived in between.
\<close>

lemma stored_by_snoc: "stored_by evs key entry \<Longrightarrow> stored_by (evs @ [ev]) key entry"
  by (auto simp: stored_by_def)

lemma later_step_keeps:
  "cache (later_step m ev) key = Some entry \<Longrightarrow>
   cache m key = Some entry \<or> stored_by [ev] key entry"
  by (cases ev)
     (auto simp: on_miss_def clearCache_def stored_by_def
           split: axios_result.splits option.splits if_splits)

lemma stored_by_last: "stored_by [ev] key entry \<Longrightarrow> stored_by (evs @ [ev]) key entry"
  by (auto simp: stored_by_def)

lemma entry_after_is_stored_after:
  "cache m key = None \<Longrightarrow> cache (foldl later_step m evs) key = Some entry \<Longrightarrow>
   stored_by evs key entry"
proof (induction evs arbitrary: entry rule: rev_induct)
  case Nil
  then show ?case by simp
next
  case (snoc ev evs)
  from snoc.prems(2) have "cache (later_step (foldl later_step m evs) ev) key = Some entry"
    by simp
  from later_step_keeps [OF this]
  show ?case
  proof
    assume "cache (foldl later_step m evs) key = Some entry"
    from snoc.IH [OF snoc.prems(1) this] show ?thesis by (rule stored_by_snoc)
  next
    assume "stored_by [ev] key entry"
    then show ?thesis by (rule stored_by_last)
  qed
qed

lemma cache_cleared: "prefix (i @ ''-'') key \<Longrightarrow> cache (clearCache (Some i) m) key = None"
  by (simp add: clearCache_def)

text \<open>
  Claim C7, as amended. A registry mutation deletes the host's cache entries at once: after
  \<^verbatim>\<open>POST /api/hosts\<close> no key of the cache can be read, and after \<^verbatim>\<open>PUT\<close> or
  \<^verbatim>\<open>DELETE /api/hosts/:id\<close> for an id present in the registry (both answer 200) no key
  of a host with that id can, whatever the time and the endpoint. No entry that was in the
  cache before the mutation is served under such a key again: whatever happens later,
  responses arriving and being stored or further calls of \<^verbatim>\<open>clearCache\<close>, an entry
  found there has been stored by a response that arrived after the mutation.
\<close>

theorem registry_mutation_invalidates_cache:
  "read_cache (healthManager (snd (snd (post_hosts now hostConfig s)))) t key = None \<and>
   (cache (foldl later_step (healthManager (snd (snd (post_hosts now hostConfig s)))) evs) key =
      Some entry \<longrightarrow> stored_by evs key entry) \<and>
   (i \<in> hid ` set (hosts (registry s)) \<and> hid h = i \<longrightarrow>
      fst (put_hosts i updates s) = 200 \<and>
      read_cache (healthManager (snd (snd (put_hosts i updates s)))) t (cacheKey h endpoint) = None \<and>
      (cache (foldl later_step (healthManager (snd (snd (put_hosts i updates s)))) evs)
           (cacheKey h endpoint) = Some entry \<longrightarrow>
         stored_by evs (cacheKey h endpoint) entry) \<and>
      fst (delete_hosts i s) = 200 \<and>
      read_cache (healthManager (snd (snd (delete_hosts i s)))) t (cacheKey h endpoint) = None \<and>
      (cache (foldl later_step (healthManager (snd (snd (delete_hosts i s)))) evs)
           (cacheKey h endpoint) = Some entry \<longrightarrow>
         stored_by evs (cacheKey h endpoint) entry))"
proof (intro conjI impI)
  have c: "cache (healthManager (snd (snd (post_hosts now hostConfig s)))) key = None"
    by (simp add: post_hosts_manager clearCache_def)
  from c show "read_cache (healthManager (snd (snd (post_hosts now hostConfig s)))) t key = None"
    by (rule read_cache_None)
  show "stored_by evs key entry"
    if "cache (foldl later_step (healthManager (snd (snd (post_hosts now hostConfig s)))) evs) key =
      Some entry"
    using c that by (rule entry_after_is_stored_after)
next
  assume a: "i \<in> hid ` set (hosts (registry s)) \<and> hid h = i"
  then have k: "prefix (i @ ''-'') (cacheKey h endpoint)" by (simp add: cacheKey_def)
  from a have p: "fst (put_hosts i updates s) = 200"
    and pm: "healthManager (snd (snd (put_hosts i updates s))) = clearCache (Some i) (healthManager s)"
    using put_hosts_found [of i s updates] by simp_all
  from a have d: "fst (delete_hosts i s) = 200"
    and dm: "healthManager (snd (snd (delete_hosts i s))) = clearCache (Some i) (healthManager s)"
    using delete_hosts_found [of i s] by simp_all
  have c: "cache (clearCache (Some i) (healthManager s)) (cacheKey h endpoint) = None"
    by (rule cache_cleared [OF k])
  show "fst (put_hosts i updates s) = 200" by (rule p)
  show "fst (delete_hosts i s) = 200" by (rule d)
  show "read_cache (healthManager (snd (snd (put_hosts i updates s)))) t (cacheKey h endpoint) = None"
    unfolding pm using c by (rule read_cache_None)
  show "read_cache (healthManager (snd (snd (delete_hosts i s)))) t (cacheKey h endpoint) = None"
    unfolding dm using c by (rule read_cache_None)
  show "stored_by evs (cacheKey h endpoint) entry"
    if "cache (foldl later_step (healthManager (snd (snd (put_hosts i updates s)))) evs)
           (cacheKey h endpoint) = Some entry"
    using c that unfolding pm by (rule entry_after_is_stored_after)
  show "stored_by evs (cacheKey h endpoint) entry"
    if "cache (foldl later_step (healthManager (snd (snd (delete_hosts i s)))) evs)
           (cacheKey h endpoint) = Some entry"
    using c that unfolding dm by (rule entry_after_is_stored_after)
qed

theorem registry_mutation_invalidates_cache_witness:
  "read_cache (healthManager example_server) 1500 ''h2-/api/health/all'' =
     Some (example_report ''redis'' ''Healthy'') \<and>
   read_cache (healthManager (snd (snd (put_hosts ''h2'' example_updates example_server)))) 1500
     ''h2-/api/health/all'' = None \<and>
   read_cache (healthManager (snd (snd (delete_hosts ''h2'' example_server)))) 1500
     ''h2-/api/health/all'' = None \<and>
   stored_by
     [Arrives example_settings (call (example_cycle 1600) 1)
        (example_host ''h2'' ''10.0.0.7'' 9999 ''agent'') ''/api/health/all'']
     ''h2-/api/health/all''
     \<lparr> data = example_report ''redis'' ''Healthy'', timestamp_c = 1640 \<rparr>"
proof -
  have ev: "cache (foldl later_step
               (healthManager (snd (snd (put_hosts ''h2'' example_updates example_server))))
               [Arrives example_settings (call (example_cycle 1600) 1)
                  (example_host ''h2'' ''10.0.0.7'' 9999 ''agent'') ''/api/health/all''])
              (cacheKey (example_host ''h2'' ''10.0.0.5'' 9999 ''agent'') ''/api/health/all'') =
            Some \<lparr> data = example_report ''redis'' ''Healthy'', timestamp_c = 1640 \<rparr>"
    by (simp add: on_miss_def example_cycle_def example_world_def example_env_def cacheKey_def
          example_host_def)
  from ev registry_mutation_invalidates_cache [where s = example_server and i = "''h2''" and t = 1500
      and updates = example_updates
      and h = "example_host ''h2'' ''10.0.0.5'' 9999 ''agent''" and endpoint = "''/api/health/all''"
      and evs = "[Arrives example_settings (call (example_cycle 1600) 1)
                   (example_host ''h2'' ''10.0.0.7'' 9999 ''agent'') ''/api/health/all'']"
      and entry = "\<lparr> data = example_report ''redis'' ''Healthy'', timestamp_c = 1640 \<rparr>"]
  show ?thesis
    by (simp add: example_server_def example_cluster_def example_registry_def example_host_def
          cacheKey_def read_cache_def example_manager_def)
qed

text \<open>
  Against claim C7 as stated: a cycle finds no entry for \<^verbatim>\<open>h2\<close> and sends its request
  to the host's address 10.0.0.5; \<^verbatim>\<open>PUT /api/hosts/h2\<close> moves the host to 10.0.0.7 and
  clears its entries; the answer of 10.0.0.5 arrives and is stored; the next read for the
  host, now at 10.0.0.7, is served that answer and sends no request.
\<close>

theorem in_flight_answer_is_cached_after_update:
  "snd (snd (executeRemoteHealthCheck (healthManager example_idle_server) example_settings
       (example_two_peers 1000) (example_host ''h2'' ''10.0.0.5'' 9999 ''agent'')
       ''/api/health/all'')) =
     [Get ''http://10.0.0.5:9999/api/health/all'' (axiosConfig example_settings)] \<and>
   fst (put_hosts ''h2'' example_updates example_idle_server) = 200 \<and>
   hosts (registry (snd (snd (put_hosts ''h2'' example_updates example_idle_server)))) ! 1 =
     example_host ''h2'' ''10.0.0.7'' 9999 ''agent'' \<and>
   read_cache (healthManager (snd (snd (put_hosts ''h2'' example_updates example_idle_server))))
     1500 ''h2-/api/health/all'' = None \<and>
   fst (executeRemoteHealthCheck
     (arrive (healthManager example_idle_server) example_settings ''/api/health/all''
        (example_world (\<lambda>i. example_two_peers 1000) [1])
        (getEnabledHosts (registry example_idle_server))
        (healthManager (snd (snd (put_hosts ''h2'' example_updates example_idle_server)))) 1)
     example_settings (example_two_peers 1500) (example_host ''h2'' ''10.0.0.7'' 9999 ''agent'')
     ''/api/health/all'') = example_report ''redis'' ''Degraded'' \<and>
   snd (snd (executeRemoteHealthCheck
     (arrive (healthManager example_idle_server) example_settings ''/api/health/all''
        (example_world (\<lambda>i. example_two_peers 1000) [1])
        (getEnabledHosts (registry example_idle_server))
        (healthManager (snd (snd (put_hosts ''h2'' example_updates example_idle_server)))) 1)
     example_settings (example_two_peers 1500) (example_host ''h2'' ''10.0.0.7'' 9999 ''agent'')
     ''/api/health/all'')) = []"
  by (simp add: executeRemoteHealthCheck_def on_miss_def read_cache_def example_idle_server_def
        example_cluster_def example_registry_def example_host_def example_manager_def
        example_world_def example_two_peers_def cacheKey_def url_def
        show_nat.simps digit_char_def put_hosts_def updateHost_def assign_def example_updates_def
        clearCache_def arrive_def host_at_def getEnabledHosts_def is_local_def Let_def)

text \<open>
  Claim C8, as amended. \<^verbatim>\<open>addHost\<close> never rejects: given an id that a host of the
  registry already has, it appends the new host with that id, so that afterwards two hosts
  share the id, and \<^verbatim>\<open>POST /api/hosts\<close> answers 201 with the new host.
\<close>

theorem addHost_appends_duplicate_id:
  assumes "cfg_id hostConfig = Some X" and "X \<noteq> []" and "X \<in> hid ` set (hosts c)"
  shows "hosts (snd (addHost now hostConfig c)) = hosts c @ [fst (addHost now hostConfig c)] \<and>
         hid (fst (addHost now hostConfig c)) = X \<and>
         \<not> distinct (map hid (hosts (snd (addHost now hostConfig c)))) \<and>
         (registry s = c \<longrightarrow>
            fst (post_hosts now hostConfig s) = 201 \<and>
            fst (snd (post_hosts now hostConfig s)) = Some (fst (addHost now hostConfig c)) \<and>
            registry (snd (snd (post_hosts now hostConfig s))) = snd (addHost now hostConfig c))"
proof -
  have h: "hosts (snd (addHost now hostConfig c)) = hosts c @ [fst (addHost now hostConfig c)]"
    by (simp add: addHost_def Let_def)
  have i: "hid (fst (addHost now hostConfig c)) = X"
    using assms(1,2) by (simp add: addHost_def Let_def or_else_def)
  have d: "\<not> distinct (map hid (hosts (snd (addHost now hostConfig c))))"
    unfolding h using assms(3) i by auto
  have p: "registry s = c \<longrightarrow>
            fst (post_hosts now hostConfig s) = 201 \<and>
            fst (snd (post_hosts now hostConfig s)) = Some (fst (addHost now hostConfig c)) \<and>
            registry (snd (snd (post_hosts now hostConfig s))) = snd (addHost now hostConfig c)"
    by (simp add: post_hosts_def split_beta)
  from h i d p show ?thesis by blast
qed

theorem addHost_appends_duplicate_id_witness:
  "map hid (hosts (snd (addHost 1735689600000 (example_host_config ''h1'' ''10.0.0.9'')
       (example_registry [example_host ''h1'' ''10.0.0.4'' 8095 ''agent''])))) = [''h1'', ''h1'']"
proof -
  have a: "cfg_id (example_host_config ''h1'' ''10.0.0.9'') = Some ''h1''"
    by (simp add: example_host_config_def)
  have b: "''h1'' \<noteq> []" by simp
  have c: "''h1'' \<in> hid ` set (hosts (example_registry [example_host ''h1'' ''10.0.0.4'' 8095 ''agent'']))"
    by (simp add: example_registry_def example_host_def)
  from addHost_appends_duplicate_id [OF a b c, of 1735689600000]
  have "hosts (snd (addHost 1735689600000 (example_host_config ''h1'' ''10.0.0.9'')
            (example_registry [example_host ''h1'' ''10.0.0.4'' 8095 ''agent'']))) =
          hosts (example_registry [example_host ''h1'' ''10.0.0.4'' 8095 ''agent'']) @
            [fst (addHost 1735689600000 (example_host_config ''h1'' ''10.0.0.9'')
            (example_registry [example_host ''h1'' ''10.0.0.4'' 8095 ''agent'']))]"
    and "hid (fst (addHost 1735689600000 (example_host_config ''h1'' ''10.0.0.9'')
            (example_registry [example_host ''h1'' ''10.0.0.4'' 8095 ''agent'']))) = ''h1''"
    by blast+
  then show ?thesis by (simp add: example_registry_def example_host_def)
qed

text \<open>
  Against claim C8 as stated: adding a host under the id of an existing one changes the
  registry and leaves two hosts with one id.
\<close>

theorem addHost_accepts_duplicate_id:
  "hid (example_host ''h1'' ''10.0.0.4'' 8095 ''agent'') = ''h1'' \<and>
   cfg_id (example_host_config ''h1'' ''10.0.0.9'') = Some ''h1'' \<and>
   hosts (snd (addHost 1735689600000 (example_host_config ''h1'' ''10.0.0.9'')
       (example_registry [example_host ''h1'' ''10.0.0.4'' 8095 ''agent''])))
     \<noteq> hosts (example_registry [example_host ''h1'' ''10.0.0.4'' 8095 ''agent'']) \<and>
   \<not> distinct (map hid (hosts (snd (addHost 1735689600000 (example_host_config ''h1'' ''10.0.0.9'')
       (example_registry [example_host ''h1'' ''10.0.0.4'' 8095 ''agent''])))))"
  by (simp add: addHost_def Let_def or_else_def example_host_config_def example_registry_def
        example_host_def)

subsection \<open>Two cycles within the timeout\<close>

text \<open>
  With one enabled host, a remote one, a cycle leaves the manager and sends the requests
  of the one call of \<^verbatim>\<open>executeRemoteHealthCheck\<close>.
\<close>

lemma cycle_with_one_remote_host:
  assumes "getEnabledHosts c = [h]" and "\<not> is_local h" and "settle_order w = [0]"
  shows "snd (health_checks m c w args endpoint) =
           (fst (snd (executeRemoteHealthCheck m (config c) (call w 0) h endpoint)),
            map (Pair 0) (snd (snd (executeRemoteHealthCheck m (config c) (call w 0) h endpoint))))"
  using assms
  by (simp add: health_checks_def Let_def indexed_def requests_of_def arrive_def host_at_def
        executeRemoteHealthCheck_def split: option.splits prod.splits)

lemma indexed_snoc: "indexed (xs @ [x]) = indexed xs @ [(length xs, x)]"
  by (simp add: indexed_def)

lemma sent_to_concat:
  "sent_to i (concat (map (\<lambda>(j, x). map (Pair j) (f j x)) (indexed xs))) =
     (if i < length xs then f i (xs ! i) else [])"
proof (induction xs rule: rev_induct)
  case Nil
  then show ?case by (simp add: sent_to_def indexed_def)
next
  case (snoc x xs)
  have split: "sent_to i (concat (map (\<lambda>(j, x). map (Pair j) (f j x)) (indexed (xs @ [x])))) =
      sent_to i (concat (map (\<lambda>(j, x). map (Pair j) (f j x)) (indexed xs))) @
      (if i = length xs then f (length xs) x else [])"
    by (simp add: indexed_snoc sent_to_def comp_def)
  show ?case
    unfolding split snoc.IH
    by (auto simp: nth_append less_Suc_eq)
qed

lemma sent_to_health_checks:
  "sent_to i (snd (snd (health_checks m c w args endpoint))) =
     (if i < length (getEnabledHosts c)
      then requests_of m (config c) args endpoint (call w i) (getEnabledHosts c ! i) else [])"
  by (simp add: health_checks_def Let_def sent_to_concat)

lemma requests_of_cases:
  "requests_of m g args endpoint e h =
     (if is_local h then [Spawn (healthCheckerPath m) (args @ [''--format'', ''json''])]
      else if read_cache m (clock_read e) (cacheKey h endpoint) = None
           then [Get (url h endpoint) (axiosConfig g)]
      else [])"
  by (auto simp: requests_of_def executeRemoteHealthCheck_def split: option.splits prod.splits)

lemma arrive_cacheTimeout: "cacheTimeout (arrive m0 g endpoint w hs m j) = cacheTimeout m"
  by (simp add: arrive_def on_miss_def split: option.splits axios_result.splits)

lemma arrive_keeps: "cache m key \<noteq> None \<Longrightarrow> cache (arrive m0 g endpoint w hs m j) key \<noteq> None"
  by (simp add: arrive_def on_miss_def split: option.splits axios_result.splits)

lemma foldl_arrive_cacheTimeout:
  "cacheTimeout (foldl (arrive m0 g endpoint w hs) m order) = cacheTimeout m"
  by (induction order arbitrary: m) (simp_all add: arrive_cacheTimeout)

lemma foldl_arrive_keeps:
  "cache m key \<noteq> None \<Longrightarrow> cache (foldl (arrive m0 g endpoint w hs) m order) key \<noteq> None"
proof (induction order arbitrary: m)
  case Nil
  then show ?case by simp
next
  case (Cons j rest)
  have "cache (arrive m0 g endpoint w hs m j) key \<noteq> None"
    by (rule arrive_keeps [OF Cons.prems])
  from Cons.IH [OF this] show ?case by simp
qed

lemma arrive_writes:
  assumes "host_at hs i = Some h" and "\<not> is_local h"
    and "read_cache m0 (clock_read (call w i)) (cacheKey h endpoint) = None"
    and "axios_get (call w i) (url h endpoint) (axiosConfig g) = Response d"
  shows "cache (arrive m0 g endpoint w hs m i) (cacheKey h endpoint) \<noteq> None"
  using assms by (simp add: arrive_def on_miss_def)

lemma foldl_arrive_writes:
  assumes "host_at hs i = Some h" and "\<not> is_local h"
    and "read_cache m0 (clock_read (call w i)) (cacheKey h endpoint) = None"
    and "axios_get (call w i) (url h endpoint) (axiosConfig g) = Response d"
    and "i \<in> set order"
  shows "cache (foldl (arrive m0 g endpoint w hs) m order) (cacheKey h endpoint) \<noteq> None"
  using assms(5)
proof (induction order arbitrary: m)
  case Nil
  then show ?case by simp
next
  case (Cons j rest)
  show ?case
  proof (cases "j = i")
    case True
    have "cache (arrive m0 g endpoint w hs m i) (cacheKey h endpoint) \<noteq> None"
      by (rule arrive_writes [OF assms(1-4)])
    then have "cache (foldl (arrive m0 g endpoint w hs) (arrive m0 g endpoint w hs m i) rest)
        (cacheKey h endpoint) \<noteq> None"
      by (rule foldl_arrive_keeps)
    then show ?thesis
      using True by simp
  next
    case False
    with Cons.prems have "i \<in> set rest" by simp
    from Cons.IH [OF this] show ?thesis by simp
  qed
qed

lemma read_cache_Some_cache: "read_cache m t key \<noteq> None \<Longrightarrow> cache m key \<noteq> None"
  by (auto simp: read_cache_def split: option.splits)

lemma health_checks_manager:
  "fst (snd (health_checks m c w args endpoint)) =
     foldl (arrive m (config c) endpoint w (getEnabledHosts c)) m (settle_order w)"
  by (simp add: health_checks_def Let_def)

lemma cached_after_cycle:
  assumes i: "i < length (getEnabledHosts c)" and r: "\<not> is_local (getEnabledHosts c ! i)"
    and p: "read_cache m (clock_read (call w i)) (cacheKey (getEnabledHosts c ! i) endpoint) \<noteq> None \<or>
       (i \<in> set (settle_order w) \<and>
        (\<exists>d. axios_get (call w i) (url (getEnabledHosts c ! i) endpoint) (axiosConfig (config c)) = Response d))"
  shows "cache (fst (snd (health_checks m c w args endpoint))) (cacheKey (getEnabledHosts c ! i) endpoint) \<noteq> None"
proof (cases "read_cache m (clock_read (call w i)) (cacheKey (getEnabledHosts c ! i) endpoint) = None")
  case True
  with p obtain d where o: "i \<in> set (settle_order w)"
    and d: "axios_get (call w i) (url (getEnabledHosts c ! i) endpoint) (axiosConfig (config c)) = Response d"
    by blast
  from i have at: "host_at (getEnabledHosts c) i = Some (getEnabledHosts c ! i)"
    by (simp add: host_at_def)
  show ?thesis
    unfolding health_checks_manager
    by (rule foldl_arrive_writes [OF at r True d o])
next
  case False
  then have "cache m (cacheKey (getEnabledHosts c ! i) endpoint) \<noteq> None"
    by (rule read_cache_Some_cache)
  then show ?thesis
    unfolding health_checks_manager by (rule foldl_arrive_keeps)
qed

lemma fresh_entry_reused:
  assumes "cache m key = Some entry" and "t - timestamp_c entry < cacheTimeout m"
  shows "read_cache m t key = Some (data entry)"
  using assms by (simp add: read_cache_def)

text \<open>
  Claim C6, as amended. For the enabled host at index \<open>i\<close>, a cycle spawns the local
  checker if the host is local, without looking at the cache; for a remote host it sends
  the request exactly when the cache check misses. If a remote host's check hit, or its
  request was answered and the answer has arrived, the cache holds an entry under its key
  after the cycle, and a second cycle whose check finds that entry younger than the timeout
  sends nothing to the host and takes the entry's payload as its result.
\<close>

theorem cache_is_consulted_for_remote_hosts_only:
  assumes "i < length (getEnabledHosts c)"
  shows
    "(let h = getEnabledHosts c ! i;
          key = cacheKey h ''/api/health/all'';
          get = Get (url h ''/api/health/all'') (axiosConfig (config c));
          m1 = fst (snd (getAllHealthChecks m c w))
      in sent_to i (snd (snd (getAllHealthChecks m c w))) =
           (if is_local h then [Spawn (healthCheckerPath m) [''all'', ''--format'', ''json'']]
            else if read_cache m (clock_read (call w i)) key = None then [get]
            else []) \<and>
         (\<not> is_local h \<and>
          (read_cache m (clock_read (call w i)) key \<noteq> None \<or>
           i \<in> set (settle_order w) \<and>
           (\<exists>d. axios_get (call w i) (url h ''/api/health/all'') (axiosConfig (config c)) = Response d)) \<longrightarrow>
          (\<exists>entry. cache m1 key = Some entry \<and>
             (clock_read (call w' i) - timestamp_c entry < cacheTimeout m \<longrightarrow>
                sent_to i (snd (snd (getAllHealthChecks m1 c w'))) = [] \<and>
                settle m1 (config c) [''all''] ''/api/health/all'' (call w' i) h =
                  Fulfilled h (data entry)))))"
proof -
  let ?h = "getEnabledHosts c ! i"
  let ?ep = "''/api/health/all''"
  let ?key = "cacheKey ?h ?ep"
  let ?m1 = "fst (snd (health_checks m c w [''all''] ?ep))"
  have first: "sent_to i (snd (snd (health_checks m c w [''all''] ?ep))) =
           (if is_local ?h then [Spawn (healthCheckerPath m) [''all'', ''--format'', ''json'']]
            else if read_cache m (clock_read (call w i)) ?key = None
                 then [Get (url ?h ?ep) (axiosConfig (config c))]
            else [])"
    using assms by (simp add: sent_to_health_checks requests_of_cases)
  have second: "\<exists>entry. cache ?m1 ?key = Some entry \<and>
             (clock_read (call w' i) - timestamp_c entry < cacheTimeout m \<longrightarrow>
                sent_to i (snd (snd (health_checks ?m1 c w' [''all''] ?ep))) = [] \<and>
                settle ?m1 (config c) [''all''] ?ep (call w' i) ?h = Fulfilled ?h (data entry))"
    if r: "\<not> is_local ?h"
      and p: "read_cache m (clock_read (call w i)) ?key \<noteq> None \<or>
           i \<in> set (settle_order w) \<and>
           (\<exists>d. axios_get (call w i) (url ?h ?ep) (axiosConfig (config c)) = Response d)"
  proof -
    from cached_after_cycle [OF assms r p, of "[''all'']"]
    obtain entry where e: "cache ?m1 ?key = Some entry" by blast
    have ct: "cacheTimeout ?m1 = cacheTimeout m"
      by (simp add: health_checks_manager foldl_arrive_cacheTimeout)
    have "sent_to i (snd (snd (health_checks ?m1 c w' [''all''] ?ep))) = [] \<and>
          settle ?m1 (config c) [''all''] ?ep (call w' i) ?h = Fulfilled ?h (data entry)"
      if f: "clock_read (call w' i) - timestamp_c entry < cacheTimeout m"
    proof -
      from f ct have "clock_read (call w' i) - timestamp_c entry < cacheTimeout ?m1" by simp
      from fresh_entry_reused [OF e this]
      have hit: "read_cache ?m1 (clock_read (call w' i)) ?key = Some (data entry)" .
      show ?thesis
        using assms r hit
        by (simp add: sent_to_health_checks requests_of_cases settle_def executeRemoteHealthCheck_def)
    qed
    with e show ?thesis by blast
  qed
  from first second show ?thesis
    unfolding getAllHealthChecks_def Let_def by blast
qed

lemmas cycle_defs =
  getAllHealthChecks_def health_checks_def getEnabledHosts_def example_registry_def
  example_cluster_def example_cycle_def
  example_host_def indexed_def settle_def is_local_def executeRemoteHealthCheck_def
  on_miss_def read_cache_def example_manager_def example_env_def example_world_def
  arrive_def host_at_def cacheKey_def requests_of_def sent_to_def executeLocalHealthChecker_def

theorem cache_is_consulted_for_remote_hosts_only_witness:
  "sent_to 1 (snd (snd (getAllHealthChecks
       (fst (snd (getAllHealthChecks (example_manager []) example_cluster (example_cycle 1000))))
       example_cluster (example_cycle 2000)))) = []"
proof -
  have ev: "cache (fst (snd (getAllHealthChecks (example_manager []) example_cluster (example_cycle 1000))))
              ''h2-/api/health/all'' =
            Some \<lparr> data = example_report ''redis'' ''Healthy'', timestamp_c = 1040 \<rparr>"
    by (simp add: cycle_defs)
  have i: "1 < length (getEnabledHosts example_cluster)"
    by (simp add: getEnabledHosts_def example_cluster_def example_registry_def example_host_def)
  from cache_is_consulted_for_remote_hosts_only [OF i, of "example_manager []" "example_cycle 1000" "example_cycle 2000"] ev
  show ?thesis
    by (simp add: Let_def getEnabledHosts_def example_cluster_def example_registry_def
          example_host_def is_local_def cacheKey_def example_cycle_def example_world_def
          example_env_def example_manager_def read_cache_def)
qed

text \<open>
  Against claim C6 as stated: a local host is probed in the first cycle and again in a
  second cycle one second later.
\<close>

theorem local_host_is_probed_in_every_cycle:
  "is_local (getEnabledHosts example_cluster ! 0) \<and>
   sent_to 0 (snd (snd (getAllHealthChecks (example_manager []) example_cluster (example_cycle 1000)))) =
     [Spawn ''/opt/backend-ai-health-checker'' [''all'', ''--format'', ''json'']] \<and>
   sent_to 0 (snd (snd (getAllHealthChecks
       (fst (snd (getAllHealthChecks (example_manager []) example_cluster (example_cycle 1000))))
       example_cluster (example_cycle 2000)))) =
     [Spawn ''/opt/backend-ai-health-checker'' [''all'', ''--format'', ''json'']]"
  by (simp add: cycle_defs)

subsection \<open>Log sources\<close>

lemma supported_cases:
  "toLowerCase svc \<in> set supportedServices \<Longrightarrow>
   toLowerCase svc = ''etcd'' \<or> toLowerCase svc = ''redis'' \<or>
   toLowerCase svc = ''manager'' \<or> toLowerCase svc = ''agent''"
  by (simp add: supportedServices_def)
















end
